theory Spec2Isabelle
  imports Main "HOL-Library.Sublist"
begin

section \<open>JavaScript values and strings\<close>

text \<open>
  The transpiler (\<^verbatim>\<open>bin/main.ts\<close>) looks type names and rights keywords up in object
  literals with \<^verbatim>\<open>map[key] || fallback\<close>. Such a lookup can yield a value that is not a
  string, so the values the program handles are modelled explicitly: \<^verbatim>\<open>undefined\<close>,
  strings, the numbers of the \<^verbatim>\<open>Rights\<close> enum, the native functions inherited from
  \<^verbatim>\<open>Object.prototype\<close>, and \<^verbatim>\<open>Object.prototype\<close> itself.
  Strings are lists of characters.
\<close>

datatype jsval =
    JUndefined
  | JString string
  | JNumber nat
  | JFunction string
  | JObjectPrototype

definition quote :: char where
  "quote = CHR 0x27"

definition newline :: char where
  "newline = CHR 0x0A"

definition carriage_return :: char where
  "carriage_return = CHR 0x0D"

text \<open>Decimal rendering of a number, as a template literal does for \<^verbatim>\<open>signatures.length\<close>.\<close>

fun string_of_nat :: "nat \<Rightarrow> string" where
  "string_of_nat n =
     (if n < 10 then [char_of (48 + n)]
      else string_of_nat (n div 10) @ [char_of (48 + n mod 10)])"

declare string_of_nat.simps [simp del]

text \<open>\<^verbatim>\<open>ToBoolean\<close>, which decides the \<^verbatim>\<open>||\<close> operator.\<close>

fun truthy :: "jsval \<Rightarrow> bool" where
  "truthy JUndefined = False"
| "truthy (JString s) = (s \<noteq> [])"
| "truthy (JNumber n) = (n \<noteq> 0)"
| "truthy (JFunction f) = True"
| "truthy JObjectPrototype = True"

definition js_or :: "jsval \<Rightarrow> jsval \<Rightarrow> jsval" where
  "js_or a b = (if truthy a then a else b)"

text \<open>\<^verbatim>\<open>ToString\<close>, which a template literal applies to each substitution.\<close>

fun toString :: "jsval \<Rightarrow> string" where
  "toString JUndefined = ''undefined''"
| "toString (JString s) = s"
| "toString (JNumber n) = string_of_nat n"
| "toString (JFunction f) = ''function '' @ f @ ''() { [native code] }''"
| "toString JObjectPrototype = ''[object Object]''"

text \<open>
  Every object literal inherits the properties of \<^verbatim>\<open>Object.prototype\<close>; the accessor
  \<^verbatim>\<open>__proto__\<close> yields the prototype object itself.
\<close>

definition object_prototype :: "(string \<times> jsval) list" where
  "object_prototype =
     [(''constructor'', JFunction ''Object''),
      (''__defineGetter__'', JFunction ''__defineGetter__''),
      (''__defineSetter__'', JFunction ''__defineSetter__''),
      (''hasOwnProperty'', JFunction ''hasOwnProperty''),
      (''__lookupGetter__'', JFunction ''__lookupGetter__''),
      (''__lookupSetter__'', JFunction ''__lookupSetter__''),
      (''isPrototypeOf'', JFunction ''isPrototypeOf''),
      (''propertyIsEnumerable'', JFunction ''propertyIsEnumerable''),
      (''toString'', JFunction ''toString''),
      (''valueOf'', JFunction ''valueOf''),
      (''__proto__'', JObjectPrototype),
      (''toLocaleString'', JFunction ''toLocaleString'')]"

text \<open>Property read \<^verbatim>\<open>obj[key]\<close>: own properties first, then the prototype.\<close>

definition get_prop :: "(string \<times> jsval) list \<Rightarrow> string \<Rightarrow> jsval" where
  "get_prop own key =
     (case map_of own key of
        Some v \<Rightarrow> v
      | None \<Rightarrow> (case map_of object_prototype key of Some v \<Rightarrow> v | None \<Rightarrow> JUndefined))"

text \<open>
  \<^verbatim>\<open>String.prototype.toUpperCase\<close>. On ASCII text it maps each of the letters a to z to
  its capital and leaves every other character as it is. On text with a character outside
  ASCII it follows the Unicode case mappings of the JavaScript engine, which are no part of
  the program and can change the length of the text (sharp s becomes SS): there the result
  is what the engine's mapping, the parameter \<open>upper\<close>, gives for the whole text.
\<close>

definition is_ascii :: "char \<Rightarrow> bool" where
  "is_ascii c = ((of_char c :: nat) < 128)"

definition toUpperCaseChar :: "char \<Rightarrow> char" where
  "toUpperCaseChar c =
     (let n = (of_char c :: nat) in if 97 \<le> n \<and> n \<le> 122 then char_of (n - 32) else c)"

definition toUpperCase :: "(string \<Rightarrow> string) \<Rightarrow> string \<Rightarrow> string" where
  "toUpperCase upper s = (if list_all is_ascii s then map toUpperCaseChar s else upper s)"

text \<open>\<^verbatim>\<open>Array.prototype.join\<close>.\<close>

fun join :: "string \<Rightarrow> string list \<Rightarrow> string" where
  "join sep [] = []"
| "join sep [x] = x"
| "join sep (x # y # ys) = x @ sep @ join sep (y # ys)"

text \<open>\<^verbatim>\<open>s.split(/\r?\n/)\<close>: a line ends at a line feed, with a carriage return before it
  taken along.\<close>

fun split_lines :: "string \<Rightarrow> string list" where
  "split_lines [] = [[]]"
| "split_lines (c # cs) =
     (if c = newline then [] # split_lines cs
      else if c = carriage_return \<and> cs \<noteq> [] \<and> hd cs = newline then [] # split_lines (tl cs)
      else (case split_lines cs of l # ls \<Rightarrow> (c # l) # ls | [] \<Rightarrow> [[c]]))"

section \<open>Errors and promises\<close>

text \<open>A thrown value: the error's \<^verbatim>\<open>name\<close> and \<^verbatim>\<open>message\<close>.\<close>

datatype js_error = JsError (err_name: string) (err_message: string)

text \<open>\<^verbatim>\<open>Error.prototype.toString\<close>, which \<^verbatim>\<open>`${e}`\<close> calls.\<close>

definition error_toString :: "js_error \<Rightarrow> string" where
  "error_toString e =
     (if err_name e = [] then err_message e
      else if err_message e = [] then err_name e
      else err_name e @ '': '' @ err_message e)"

text \<open>The outcome of an \<^verbatim>\<open>async\<close> function: its promise fulfils with a value or rejects
  with the thrown error.\<close>

datatype 'a promise = Fulfilled 'a | Rejected js_error

section \<open>Diagnostics\<close>

record Diagnostics =
  messages :: "string list"

text \<open>
  A value of type \<^verbatim>\<open>T | Diagnostics\<close> (with \<^verbatim>\<open>T\<close> a string or an array of strings) is a
  sum; \<^verbatim>\<open>isDiagnostics\<close> tests \<^verbatim>\<open>typeof x === 'object'\<close> and that \<^verbatim>\<open>x.messages\<close> is an array
  of strings, which holds of the right summand only (an array has no \<^verbatim>\<open>messages\<close>).
\<close>

definition isDiagnostics :: "'a + Diagnostics \<Rightarrow> bool" where
  "isDiagnostics x = (case x of Inl v \<Rightarrow> False | Inr d \<Rightarrow> True)"

text \<open>
  A compiler diagnostic, with what \<^verbatim>\<open>ts.getLineAndCharacterOfPosition\<close> and
  \<^verbatim>\<open>ts.flattenDiagnosticMessageText\<close> report for it: the file name with the zero-based line
  and character of its start when it has a file, and the flattened message.
\<close>

record TsDiagnostic =
  diag_file :: "(string \<times> nat \<times> nat) option"
  diag_message :: string

definition fromFile :: "string \<Rightarrow> nat \<Rightarrow> nat \<Rightarrow> string \<Rightarrow> string" where
  "fromFile fileName line character message =
     fileName @ '' ('' @ string_of_nat (line + 1) @ '','' @ string_of_nat (character + 1)
       @ ''): '' @ message"

definition diagnostics :: "TsDiagnostic list \<Rightarrow> Diagnostics" where
  "diagnostics tsDiagnostics =
     \<lparr>messages = map (\<lambda>d. case diag_file d of
                               Some (fileName, line, character) \<Rightarrow>
                                 fromFile fileName line character (diag_message d)
                             | None \<Rightarrow> diag_message d) tsDiagnostics\<rparr>"

section \<open>Signatures and stored procedures\<close>

record Sym =
  sym_name :: string
  sym_doc :: string
  sym_type :: string

record Sig =
  sig_params :: "Sym list"
  sig_returnType :: string
  sig_doc :: string

record Param =
  param_name :: string
  param_type :: jsval

text \<open>The \<^verbatim>\<open>Rights\<close> enum is compiled to an object with the reverse mapping.\<close>

definition Rights :: "(string \<times> jsval) list" where
  "Rights =
     [(''NOT_SPECIFIED'', JNumber 0), (''0'', JString ''NOT_SPECIFIED''),
      (''CALLER'', JNumber 1), (''1'', JString ''CALLER''),
      (''OWNER'', JNumber 2), (''2'', JString ''OWNER'')]"

definition NOT_SPECIFIED :: jsval where
  "NOT_SPECIFIED = JNumber 0"

definition CALLER :: jsval where
  "CALLER = JNumber 1"

definition OWNER :: jsval where
  "OWNER = JNumber 2"

record StoredProcedure =
  sp_name :: string
  sp_params :: "Param list"
  sp_returnType :: jsval
  sp_rights :: jsval

definition STORED_PROCEDURE_TAG :: string where
  "STORED_PROCEDURE_TAG = ''sf_stored_procedure''"

text \<open>
  A JSDoc tag: its name and its comment, which the compiler API gives as a string, as a
  node array, or not at all.
\<close>

datatype tag_comment = NoComment | TextComment string | NodeComment "string list"

record JSDocTag =
  tagName :: string
  comment :: tag_comment

text \<open>
  A named function declaration with what \<^verbatim>\<open>jsTags\<close> collects from its JSDoc blocks by
  \<^verbatim>\<open>flatMap(jsdoc => jsdoc.tags)\<close>: the tags of each block, in order. A block without tags
  has no \<^verbatim>\<open>tags\<close> array and contributes the element \<^verbatim>\<open>undefined\<close>, written \<open>None\<close>.
  The type checker is the function giving the call signatures of a declaration, each
  already serialised by \<^verbatim>\<open>serializeSignature\<close>.
\<close>

record FunctionDeclaration =
  decl_name :: string
  jsTags :: "JSDocTag option list"

type_synonym TypeChecker = "FunctionDeclaration \<Rightarrow> Sig list"

definition sql_types :: "(string \<times> jsval) list" where
  "sql_types =
     [(''string'', JString ''STRING''),
      (''number'', JString ''NUMBER''),
      (''Date'', JString ''TIMESTAMP_LTZ''),
      (''boolean'', JString ''BOOLEAN''),
      (''object'', JString ''VARIANT''),
      (''array'', JString ''ARRAY''),
      (''json'', JString ''VARIANT'')]"

definition mapToSQL :: "string \<Rightarrow> jsval" where
  "mapToSQL dataType = js_or (get_prop sql_types dataType) (get_prop sql_types ''object'')"

definition rights_keywords :: "(string \<times> jsval) list" where
  "rights_keywords = [(''caller'', CALLER), (''owner'', OWNER)]"

definition runAs :: "JSDocTag \<Rightarrow> jsval" where
  "runAs tag =
     (let comment = (case comment tag of TextComment s \<Rightarrow> s | _ \<Rightarrow> [])
      in js_or (get_prop rights_keywords comment) NOT_SPECIFIED)"

text \<open>
  The test \<^verbatim>\<open>tag => tag.tagName.escapedText === STORED_PROCEDURE_TAG\<close> throws a
  \<^verbatim>\<open>TypeError\<close> on an \<^verbatim>\<open>undefined\<close> element; \<^verbatim>\<open>find\<close> and \<^verbatim>\<open>some\<close> apply it from the left
  and stop at the first element that passes.
\<close>

definition undefined_property :: "string \<Rightarrow> js_error" where
  "undefined_property field =
     JsError ''TypeError''
       (''Cannot read properties of undefined (reading '' @ [quote] @ field @ [quote] @ '')'')"

fun find_tag :: "JSDocTag option list \<Rightarrow> js_error + JSDocTag option" where
  "find_tag [] = Inr None"
| "find_tag (None # tags) = Inl (undefined_property ''tagName'')"
| "find_tag (Some tag # tags) =
     (if tagName tag = STORED_PROCEDURE_TAG then Inr (Some tag) else find_tag tags)"

fun some_tag :: "JSDocTag option list \<Rightarrow> js_error + bool" where
  "some_tag [] = Inr False"
| "some_tag (None # tags) = Inl (undefined_property ''tagName'')"
| "some_tag (Some tag # tags) =
     (if tagName tag = STORED_PROCEDURE_TAG then Inr True else some_tag tags)"

definition storedProcedureTag :: "FunctionDeclaration \<Rightarrow> js_error + JSDocTag option" where
  "storedProcedureTag decl = find_tag (jsTags decl)"

text \<open>
  \<^verbatim>\<open>storedProcedure\<close> throws when the declaration does not have exactly one call signature.
  Reading \<^verbatim>\<open>tag.comment\<close> of a missing tag would be a \<^verbatim>\<open>TypeError\<close>; the declarations
  \<^verbatim>\<open>storedProcedures\<close> selects always have the tag.
\<close>

definition storedProcedure ::
  "(string \<Rightarrow> string) \<Rightarrow> TypeChecker \<Rightarrow> FunctionDeclaration \<Rightarrow> js_error + StoredProcedure" where
  "storedProcedure upper checker decl =
     (let signatures = checker decl in
      if length signatures \<noteq> 1 then
        Inl (JsError ''Error''
              (''Function '' @ decl_name decl @ '' has '' @ string_of_nat (length signatures)
                 @ '' signatures ?!''))
      else
        let sig = hd signatures;
            ps = drop 1 (sig_params sig);
            params = map (\<lambda>p. \<lparr>param_name = toUpperCase upper (sym_name p),
                                param_type = mapToSQL (sym_type p)\<rparr>) ps;
            returnType = (if sig_returnType sig \<noteq> ''void'' then mapToSQL (sig_returnType sig)
                          else JString ''VARIANT NULL'')
        in case storedProcedureTag decl of
             Inl e \<Rightarrow> Inl e
           | Inr None \<Rightarrow> Inl (undefined_property ''comment'')
           | Inr (Some tag) \<Rightarrow>
               Inr \<lparr>sp_name = decl_name decl, sp_params = params, sp_returnType = returnType,
                    sp_rights = runAs tag\<rparr>)"

text \<open>The top-level nodes of a source file.\<close>

datatype Node = FunctionDecl FunctionDeclaration | OtherNode

fun isStoredProcedure :: "Node \<Rightarrow> js_error + bool" where
  "isStoredProcedure (FunctionDecl decl) = some_tag (jsTags decl)"
| "isStoredProcedure OtherNode = Inr False"

text \<open>\<^verbatim>\<open>children.filter(isStoredProcedure).map(...)\<close>; the first throw ends the filter or
  the map.\<close>

fun filter_isStoredProcedure :: "Node list \<Rightarrow> js_error + Node list" where
  "filter_isStoredProcedure [] = Inr []"
| "filter_isStoredProcedure (n # ns) =
     (case isStoredProcedure n of
        Inl e \<Rightarrow> Inl e
      | Inr b \<Rightarrow> (case filter_isStoredProcedure ns of
                   Inl e \<Rightarrow> Inl e
                 | Inr ms \<Rightarrow> Inr (if b then n # ms else ms)))"

fun map_storedProcedure ::
  "(string \<Rightarrow> string) \<Rightarrow> TypeChecker \<Rightarrow> Node list \<Rightarrow> js_error + StoredProcedure list" where
  "map_storedProcedure upper checker [] = Inr []"
| "map_storedProcedure upper checker (OtherNode # ns) = map_storedProcedure upper checker ns"
| "map_storedProcedure upper checker (FunctionDecl decl # ns) =
     (case storedProcedure upper checker decl of
        Inl e \<Rightarrow> Inl e
      | Inr sp \<Rightarrow> (case map_storedProcedure upper checker ns of
                    Inl e \<Rightarrow> Inl e
                  | Inr sps \<Rightarrow> Inr (sp # sps)))"

definition storedProcedures ::
  "(string \<Rightarrow> string) \<Rightarrow> TypeChecker \<Rightarrow> Node list \<Rightarrow> js_error + StoredProcedure list" where
  "storedProcedures upper checker children =
     (case filter_isStoredProcedure children of
        Inl e \<Rightarrow> Inl e
      | Inr selected \<Rightarrow> map_storedProcedure upper checker selected)"

section \<open>Rendering and packing\<close>

definition sqlRights :: "jsval \<Rightarrow> string" where
  "sqlRights rights =
     (if rights = NOT_SPECIFIED then []
      else '' execute as '' @ toString (get_prop Rights (toString rights)))"

definition sqlSignature :: "StoredProcedure \<Rightarrow> string" where
  "sqlSignature sp =
     (let params = map (\<lambda>p. param_name p @ '' '' @ toString (param_type p)) (sp_params sp)
      in sp_name sp @ (''('' @ join '', '' params @ '')'') @ '' returns ''
           @ toString (sp_returnType sp))"

text \<open>The template literal \<^verbatim>\<open>spCode\<close> of \<^verbatim>\<open>pack\<close>.\<close>

definition spCode :: "StoredProcedure \<Rightarrow> string \<Rightarrow> string" where
  "spCode sp bundle =
     ''create or replace procedure '' @ sqlSignature sp @ '' language javascript''
       @ sqlRights (sp_rights sp) @ '' as $$'' @ [newline]
       @ ''    let __result = null;'' @ [newline]
       @ [newline]
       @ ''    '' @ join (newline # ''    '') (split_lines bundle) @ [newline]
       @ ''    return __result;'' @ [newline]
       @ ''$$;''"

text \<open>
  The part of the file system the program touches: the directories made by \<^verbatim>\<open>mkdtemp\<close>
  and the files written, with their contents. \<^verbatim>\<open>mkdtemp\<close> appends a suffix that makes the
  name unique; a counter stands for it. The file-system calls themselves are taken to
  succeed.
\<close>

record World =
  dirs :: "string list"
  files :: "(string \<times> string) list"
  counter :: nat

definition mkdtemp :: "string \<Rightarrow> World \<Rightarrow> string \<times> World" where
  "mkdtemp pre w =
     (let d = pre @ string_of_nat (counter w)
      in (d, w\<lparr>dirs := dirs w @ [d], counter := Suc (counter w)\<rparr>))"

definition writeFile :: "string \<Rightarrow> string \<Rightarrow> World \<Rightarrow> World" where
  "writeFile path content w = w\<lparr>files := (path, content) # filter (\<lambda>f. fst f \<noteq> path) (files w)\<rparr>"

definition rm :: "string \<Rightarrow> World \<Rightarrow> World" where
  "rm path w = w\<lparr>files := filter (\<lambda>f. fst f \<noteq> path) (files w)\<rparr>"

definition rm_recursive :: "string \<Rightarrow> World \<Rightarrow> World" where
  "rm_recursive dir w =
     w\<lparr>dirs := removeAll dir (dirs w),
       files := filter (\<lambda>f. \<not> prefix (dir @ ''/'') (fst f)) (files w)\<rparr>"

type_synonym Bundler =
  "string \<Rightarrow> string \<Rightarrow> StoredProcedure \<Rightarrow> World \<Rightarrow> (string + Diagnostics) promise \<times> World"

text \<open>The \<^verbatim>\<open>for\<close> loop of \<^verbatim>\<open>pack\<close>, with \<^verbatim>\<open>sqlCodes\<close> as accumulator.\<close>

fun pack_loop ::
  "Bundler \<Rightarrow> string \<Rightarrow> StoredProcedure list \<Rightarrow> string list \<Rightarrow> World
    \<Rightarrow> (string list + Diagnostics) promise \<times> World" where
  "pack_loop bundler fileName [] sqlCodes w = (Fulfilled (Inl sqlCodes), w)"
| "pack_loop bundler fileName (sp # sprocs) sqlCodes w =
     (let (tmpDir, w1) = mkdtemp ''temp-'' w
      in case bundler tmpDir fileName sp w1 of
           (Rejected e, w2) \<Rightarrow> (Rejected e, w2)
         | (Fulfilled bundle, w2) \<Rightarrow>
             (case bundle of
                Inr d \<Rightarrow> (Fulfilled (Inr d), w2)
              | Inl code \<Rightarrow>
                  pack_loop bundler fileName sprocs (sqlCodes @ [spCode sp code])
                    (rm_recursive tmpDir w2)))"

definition pack ::
  "Bundler \<Rightarrow> string \<Rightarrow> StoredProcedure list \<Rightarrow> World
    \<Rightarrow> (string list + Diagnostics) promise \<times> World" where
  "pack bundler fileName sprocs w = pack_loop bundler fileName sprocs [] w"

section \<open>The rollup bundler\<close>

datatype Output = OutputChunk string | OutputAsset string

fun isChunk :: "Output \<Rightarrow> bool" where
  "isChunk (OutputChunk c) = True"
| "isChunk (OutputAsset a) = False"

fun chunk_code :: "Output \<Rightarrow> string" where
  "chunk_code (OutputChunk c) = c"
| "chunk_code (OutputAsset a) = a"

text \<open>
  What the rollup API does is outside the program: a build, when \<^verbatim>\<open>rollup.rollup\<close> yields
  one, carries the outcomes of \<^verbatim>\<open>generate\<close> (with the fixed output options) and of
  \<^verbatim>\<open>close\<close>; \<^verbatim>\<open>rollup.rollup\<close> itself reads the files under its input path and fulfils
  or rejects.
\<close>

record RollupBuild =
  generate :: "Output list promise"
  close :: "unit promise"

record RollupApi =
  path_resolve :: "string \<Rightarrow> string"
  rollup :: "World \<Rightarrow> string \<Rightarrow> RollupBuild promise"

text \<open>The text \<^verbatim>\<open>call_rollup\<close> writes to \<^verbatim>\<open>${tmpDir}/use.js\<close>.\<close>

definition use_js :: "string \<Rightarrow> StoredProcedure \<Rightarrow> string" where
  "use_js fileName sp =
     (let moduleName = take (length fileName - 3) fileName @ ''.js'';
          args = ''snowflake'' @ concat (map (\<lambda>p. '', '' @ param_name p) (sp_params sp))
      in ''import {'' @ sp_name sp @ ''} from '' @ [quote] @ ''../'' @ moduleName @ [quote]
           @ [newline] @ ''__result = '' @ sp_name sp @ ''('' @ args @ '')'')"

definition call_rollup :: "RollupApi \<Rightarrow> Bundler" where
  "call_rollup api tmpDir fileName sp w =
     (let w1 = writeFile (tmpDir @ ''/use.js'') (use_js fileName sp) w
      in case rollup api w1 (path_resolve api (tmpDir @ ''/use.js'')) of
           Rejected e \<Rightarrow> (Rejected e, w1)
         | Fulfilled bundle \<Rightarrow>
             (let result = (case generate bundle of
                              Fulfilled output \<Rightarrow>
                                Inl (concat (map chunk_code (filter isChunk output)))
                            | Rejected e \<Rightarrow> Inr \<lparr>messages = [error_toString e]\<rparr>)
              in case close bundle of
                   Rejected e \<Rightarrow> (Rejected e, w1)
                 | Fulfilled u \<Rightarrow> (Fulfilled result, w1)))"

section \<open>Compiling one module\<close>

text \<open>
  What \<^verbatim>\<open>ts.createProgram\<close> gives for a file: the top-level nodes of the source file (or
  no source file), the type checker, the diagnostics before emit, and what \<^verbatim>\<open>emit\<close> does:
  whether it is skipped, its diagnostics, and the script files it writes.
\<close>

record Program =
  sourceFile :: "Node list option"
  typeChecker :: TypeChecker
  preEmitDiagnostics :: "TsDiagnostic list"
  emitSkipped :: bool
  emitDiagnostics :: "TsDiagnostic list"
  emitted :: "(string \<times> string) list"

definition emit :: "Program \<Rightarrow> World \<Rightarrow> World" where
  "emit program w =
     (if emitSkipped program then w
      else fold (\<lambda>f. writeFile (fst f) (snd f)) (emitted program) w)"

definition compile ::
  "(string \<Rightarrow> string) \<Rightarrow> Bundler \<Rightarrow> Program \<Rightarrow> string \<Rightarrow> World \<Rightarrow> (string list + Diagnostics) promise \<times> World" where
  "compile upper bundler program fileName w =
     (case sourceFile program of
        None \<Rightarrow> (Fulfilled (Inr (diagnostics (preEmitDiagnostics program))), w)
      | Some children \<Rightarrow>
          (case storedProcedures upper (typeChecker program) children of
             Inl e \<Rightarrow> (Rejected e, w)
           | Inr sprocs \<Rightarrow>
               if length sprocs = 0 then (Fulfilled (Inl []), w)
               else
                 let w1 = emit program w in
                 if emitSkipped program then
                   (Fulfilled (Inr (diagnostics (preEmitDiagnostics program
                                                   @ emitDiagnostics program))), w1)
                 else
                   (case pack bundler fileName sprocs w1 of
                      (Rejected e, w2) \<Rightarrow> (Rejected e, w2)
                    | (Fulfilled result, w2) \<Rightarrow>
                        (Fulfilled result,
                         if suffix ''.ts'' fileName
                         then rm (take (length fileName - 3) fileName @ ''.js'') w2
                         else w2))))"

section \<open>The batch\<close>

text \<open>
  The module pipelines run concurrently. Each is represented by the time at which its
  promise settles and by its outcome. \<^verbatim>\<open>Promise.all\<close> rejects as soon as one of its
  promises rejects, with that promise's error (the first in the list among those that
  reject at the same time); when none rejects it fulfils, once all have, with the values
  in list order.
\<close>

type_synonym 'a settled = "nat \<times> 'a promise"

fun first_rejection :: "'a settled list \<Rightarrow> (nat \<times> js_error) option" where
  "first_rejection [] = None"
| "first_rejection ((t, Fulfilled v) # ps) = first_rejection ps"
| "first_rejection ((t, Rejected e) # ps) =
     (case first_rejection ps of
        None \<Rightarrow> Some (t, e)
      | Some (t', e') \<Rightarrow> if t' < t then Some (t', e') else Some (t, e))"

fun fulfilled_values :: "'a settled list \<Rightarrow> 'a list" where
  "fulfilled_values [] = []"
| "fulfilled_values ((t, Fulfilled v) # ps) = v # fulfilled_values ps"
| "fulfilled_values ((t, Rejected e) # ps) = fulfilled_values ps"

definition Promise_all :: "'a settled list \<Rightarrow> 'a list settled" where
  "Promise_all ps =
     (case first_rejection ps of
        Some (t, e) \<Rightarrow> (t, Rejected e)
      | None \<Rightarrow> (fold max (map fst ps) 0, Fulfilled (fulfilled_values ps)))"

text \<open>
  A run of \<^verbatim>\<open>main\<close>: when its promise settles and how, and what it wrote to the two
  output streams (\<^verbatim>\<open>console.log\<close> ends its text with a line feed).
\<close>

record Run =
  settled_at :: nat
  returned :: "nat promise"
  stdout :: string
  stderr :: string

text \<open>
  \<^verbatim>\<open>main\<close>, given for each file name the settled promise of
  \<^verbatim>\<open>compile(call_rollup, paths, f)\<close>.
\<close>

definition main :: "(string \<Rightarrow> (string list + Diagnostics) settled) \<Rightarrow> string list \<Rightarrow> Run" where
  "main compile_file argv =
     (let fileNames = drop 2 argv in
      case Promise_all (map compile_file fileNames) of
        (t, Rejected e) \<Rightarrow> \<lparr>settled_at = t, returned = Rejected e, stdout = [], stderr = []\<rparr>
      | (t, Fulfilled compilationResults) \<Rightarrow>
          (let errors = map projr (filter isDiagnostics compilationResults) in
           if 0 < length errors then
             \<lparr>settled_at = t, returned = Fulfilled 1, stdout = [],
              stderr = concat (map (\<lambda>d. concat (map (\<lambda>m. m @ [newline]) (messages d))) errors)\<rparr>
           else
             let texts = concat (map (\<lambda>x. if isDiagnostics x then [] else projl x)
                                     compilationResults)
             in \<lparr>settled_at = t, returned = Fulfilled 0,
                 stdout = join [newline, newline, newline] (filter (\<lambda>s. 0 < length s) texts)
                            @ [newline],
                 stderr = []\<rparr>))"

section \<open>Example inputs\<close>

text \<open>
  The names in the examples are ASCII, where the engine's mapping outside ASCII is not
  consulted; the identity stands for it.
\<close>

definition ascii_engine :: "string \<Rightarrow> string" where
  "ascii_engine s = s"

text \<open>The \<^verbatim>\<open>output_message\<close> procedure of the README, as the compiler API presents it.\<close>

definition output_message_decl :: FunctionDeclaration where
  "output_message_decl =
     \<lparr>decl_name = ''output_message'',
      jsTags = [Some \<lparr>tagName = ''sf_stored_procedure'', comment = NoComment\<rparr>]\<rparr>"

definition output_message_sig :: Sig where
  "output_message_sig =
     \<lparr>sig_params = [\<lparr>sym_name = ''snowflake'', sym_doc = [], sym_type = ''Snowflake''\<rparr>,
                    \<lparr>sym_name = ''message'', sym_doc = [], sym_type = ''string''\<rparr>],
      sig_returnType = ''string'', sig_doc = []\<rparr>"

definition one_signature :: TypeChecker where
  "one_signature decl = [output_message_sig]"

definition two_signatures :: TypeChecker where
  "two_signatures decl = [output_message_sig, output_message_sig]"


definition output_message_sp :: StoredProcedure where
  "output_message_sp =
     \<lparr>sp_name = ''output_message'',
      sp_params = [\<lparr>param_name = ''MESSAGE'', param_type = JString ''STRING''\<rparr>],
      sp_returnType = JString ''STRING'', sp_rights = NOT_SPECIFIED\<rparr>"

text \<open>The \<^verbatim>\<open>ascii_2d_plot\<close> procedure of the examples, with four parameters after the
  connection.\<close>

definition ascii_2d_plot_decl :: FunctionDeclaration where
  "ascii_2d_plot_decl =
     \<lparr>decl_name = ''ascii_2d_plot'',
      jsTags = [Some \<lparr>tagName = ''sf_stored_procedure'', comment = NoComment\<rparr>,
                Some \<lparr>tagName = ''param'', comment = TextComment ''Table containing the data to plot''\<rparr>,
                Some \<lparr>tagName = ''returns'', comment = TextComment ''ASCII art representing 2D plot''\<rparr>]\<rparr>"

definition ascii_2d_plot_sig :: Sig where
  "ascii_2d_plot_sig =
     \<lparr>sig_params =
        [\<lparr>sym_name = ''snowflake'', sym_doc = [], sym_type = ''Snowflake''\<rparr>,
         \<lparr>sym_name = ''table_name'', sym_doc = ''Table containing the data to plot'',
          sym_type = ''string''\<rparr>,
         \<lparr>sym_name = ''x_column'', sym_doc = ''Name of the column to use for the x-axis'',
          sym_type = ''string''\<rparr>,
         \<lparr>sym_name = ''y_column'', sym_doc = ''Name of the column to use for the y-axis'',
          sym_type = ''string''\<rparr>,
         \<lparr>sym_name = ''settings'', sym_doc = ''Object representing settings for the ASCII chart'',
          sym_type = ''{ title?: string; xlabel?: string; ylabel?: string; width?: number; height?: number; }''\<rparr>],
      sig_returnType = ''string'', sig_doc = []\<rparr>"

definition plot_signature :: TypeChecker where
  "plot_signature decl = [ascii_2d_plot_sig]"

definition ascii_2d_plot_sp :: StoredProcedure where
  "ascii_2d_plot_sp =
     \<lparr>sp_name = ''ascii_2d_plot'',
      sp_params = [\<lparr>param_name = ''TABLE_NAME'', param_type = JString ''STRING''\<rparr>,
                   \<lparr>param_name = ''X_COLUMN'', param_type = JString ''STRING''\<rparr>,
                   \<lparr>param_name = ''Y_COLUMN'', param_type = JString ''STRING''\<rparr>,
                   \<lparr>param_name = ''SETTINGS'', param_type = JString ''VARIANT''\<rparr>],
      sp_returnType = JString ''STRING'', sp_rights = NOT_SPECIFIED\<rparr>"

text \<open>A declaration whose marker tag carries a word that is no rights keyword.\<close>

definition constructor_tag :: JSDocTag where
  "constructor_tag = \<lparr>tagName = ''sf_stored_procedure'', comment = TextComment ''constructor''\<rparr>"

definition empty_world :: World where
  "empty_world = \<lparr>dirs = [], files = [], counter = 0\<rparr>"

definition bundled_code :: string where
  "bundled_code =
     ''function output_message(snowflake, message) {'' @ [newline]
       @ ''    return message;'' @ [newline]
       @ ''}'' @ [newline]
       @ [newline]
       @ ''__result = output_message(snowflake, MESSAGE);'' @ [newline]"

text \<open>Three behaviours of rollup: a successful build, a build whose module graph cannot
  be linked (the marked function is not exported), and a build whose output cannot be
  generated.\<close>

definition rollup_ok :: RollupApi where
  "rollup_ok =
     \<lparr>path_resolve = (\<lambda>p. ''/work/'' @ p),
      rollup = (\<lambda>w input. Fulfilled \<lparr>generate = Fulfilled [OutputChunk bundled_code],
                                       close = Fulfilled ()\<rparr>)\<rparr>"

definition rollup_build_fails :: RollupApi where
  "rollup_build_fails =
     \<lparr>path_resolve = (\<lambda>p. ''/work/'' @ p),
      rollup = (\<lambda>w input. Rejected (JsError ''RollupError''
                  ''output_message is not exported by output_message.js''))\<rparr>"

definition rollup_generate_fails :: RollupApi where
  "rollup_generate_fails =
     \<lparr>path_resolve = (\<lambda>p. ''/work/'' @ p),
      rollup = (\<lambda>w input. Fulfilled \<lparr>generate = Rejected (JsError ''RollupError''
                                                    ''Could not generate output''),
                                       close = Fulfilled ()\<rparr>)\<rparr>"

text \<open>Two modules: one whose marked function is overloaded, one that is clean.\<close>

definition overloaded_program :: Program where
  "overloaded_program =
     \<lparr>sourceFile = Some [OtherNode, FunctionDecl output_message_decl],
      typeChecker = two_signatures, preEmitDiagnostics = [], emitSkipped = False,
      emitDiagnostics = [], emitted = [(''overloaded.js'', ''export function output_message'')]\<rparr>"

definition clean_program :: Program where
  "clean_program =
     \<lparr>sourceFile = Some [OtherNode, FunctionDecl output_message_decl],
      typeChecker = one_signature, preEmitDiagnostics = [], emitSkipped = False,
      emitDiagnostics = [],
      emitted = [(''output_message.js'', ''export function output_message'')]\<rparr>"

text \<open>
  The two pipelines of a batch over these modules. The overloaded module throws before its
  first \<^verbatim>\<open>await\<close>, so its promise is rejected from the start (time 0); the clean module
  settles later (time 5).
\<close>

definition example_pipelines :: "string \<Rightarrow> (string list + Diagnostics) settled" where
  "example_pipelines f =
     (if f = ''overloaded.ts''
      then (0, fst (compile ascii_engine (call_rollup rollup_ok) overloaded_program f empty_world))
      else (5, fst (compile ascii_engine (call_rollup rollup_ok) clean_program f empty_world)))"

text \<open>A batch with a module that fails type checking (its promise fulfils with
  diagnostics) and the clean module.\<close>

definition broken_pipelines :: "string \<Rightarrow> (string list + Diagnostics) settled" where
  "broken_pipelines f =
     (if f = ''broken.ts''
      then (3, Fulfilled (Inr (diagnostics
              [\<lparr>diag_file = Some (''broken.ts'', 4, 11),
                diag_message = ''Type number is not assignable to type string.''\<rparr>,
               \<lparr>diag_file = None, diag_message = ''Cannot find module lib''\<rparr>])))
      else (5, Fulfilled (Inl [''create or replace procedure f() returns STRING'', [],
                               ''create or replace procedure g() returns STRING''])))"

text \<open>Batches in which one module gives an outcome and the overloaded module throws.\<close>

definition mixed_pipelines :: "string \<Rightarrow> (string list + Diagnostics) settled" where
  "mixed_pipelines f =
     (if f = ''overloaded.ts'' then example_pipelines f else broken_pipelines f)"

section \<open>Auxiliary facts\<close>

lemma string_of_nat_1: "string_of_nat (Suc 0) = ''1''"
  by code_simp

lemma string_of_nat_2: "string_of_nat 2 = ''2''"
  by code_simp

lemma toUpperCase_ascii:
  "list_all (\<lambda>c. (of_char c :: nat) < 128) s \<Longrightarrow>
     toUpperCase upper s =
       map (\<lambda>c. if 97 \<le> (of_char c :: nat) \<and> (of_char c :: nat) \<le> 122
                 then char_of ((of_char c :: nat) - 32) else c) s"
  by (simp add: toUpperCase_def is_ascii_def [abs_def] toUpperCaseChar_def [abs_def] Let_def)

lemma toUpperCase_explicit:
  "toUpperCase upper s =
     (if list_all (\<lambda>c. (of_char c :: nat) < 128) s
      then map (\<lambda>c. if 97 \<le> (of_char c :: nat) \<and> (of_char c :: nat) \<le> 122
                     then char_of ((of_char c :: nat) - 32) else c) s
      else upper s)"
  by (simp add: toUpperCase_def is_ascii_def [abs_def] toUpperCaseChar_def [abs_def] Let_def)

lemma toUpperCase_not_ascii:
  "\<not> list_all (\<lambda>c. (of_char c :: nat) < 128) s \<Longrightarrow> toUpperCase upper s = upper s"
  by (simp add: toUpperCase_def is_ascii_def [abs_def])

lemma toUpperCase_not_lower:
  "list_all (\<lambda>c. (of_char c :: nat) < 128) s \<Longrightarrow> c \<in> set (toUpperCase upper s)
     \<Longrightarrow> \<not> (97 \<le> (of_char c :: nat) \<and> (of_char c :: nat) \<le> 122)"
  by (auto simp add: toUpperCase_ascii)

text \<open>The lookups behave as tables with a default away from the inherited keys.\<close>

lemma mapToSQL_fallback:
  "map_of sql_types dataType = None \<Longrightarrow> map_of object_prototype dataType = None
    \<Longrightarrow> mapToSQL dataType = JString ''VARIANT''"
  by (simp add: mapToSQL_def get_prop_def js_or_def) (simp add: sql_types_def)

lemma sqlRights_caller:
  "sqlRights (runAs \<lparr>tagName = n, comment = TextComment ''caller''\<rparr>) = '' execute as CALLER''"
  by (simp add: runAs_def sqlRights_def js_or_def get_prop_def rights_keywords_def Rights_def
        NOT_SPECIFIED_def CALLER_def string_of_nat_1)

lemma sqlRights_owner:
  "sqlRights (runAs \<lparr>tagName = n, comment = TextComment ''owner''\<rparr>) = '' execute as OWNER''"
  by (simp add: runAs_def sqlRights_def js_or_def get_prop_def rights_keywords_def Rights_def
        NOT_SPECIFIED_def OWNER_def string_of_nat_2)

lemma sqlRights_other:
  "map_of rights_keywords (case comment tag of TextComment s \<Rightarrow> s | _ \<Rightarrow> []) = None \<Longrightarrow>
   map_of object_prototype (case comment tag of TextComment s \<Rightarrow> s | _ \<Rightarrow> []) = None \<Longrightarrow>
   sqlRights (runAs tag) = []"
  by (simp add: runAs_def sqlRights_def js_or_def get_prop_def)

text \<open>A declaration that \<^verbatim>\<open>storedProcedures\<close> selects has the marker tag.\<close>

lemma some_tag_find_tag:
  "some_tag tags = Inr True \<Longrightarrow> \<exists>tag. find_tag tags = Inr (Some tag)"
  by (induction tags rule: some_tag.induct) (auto split: if_splits)

lemma eligible_tag:
  "isStoredProcedure (FunctionDecl decl) = Inr True
    \<Longrightarrow> \<exists>tag. storedProcedureTag decl = Inr (Some tag)"
  by (simp add: storedProcedureTag_def some_tag_find_tag)

lemma storedProcedure_one:
  assumes "checker decl = [sig]" and "storedProcedureTag decl = Inr (Some tag)"
  shows "storedProcedure upper checker decl =
           Inr \<lparr>sp_name = decl_name decl,
                sp_params = map (\<lambda>p. \<lparr>param_name = toUpperCase upper (sym_name p),
                                        param_type = mapToSQL (sym_type p)\<rparr>)
                                (drop 1 (sig_params sig)),
                sp_returnType = (if sig_returnType sig \<noteq> ''void''
                                 then mapToSQL (sig_returnType sig)
                                 else JString ''VARIANT NULL''),
                sp_rights = runAs tag\<rparr>"
  using assms by (simp add: storedProcedure_def)


lemma storedProcedure_Inr_name:
  "storedProcedure upper checker decl = Inr sp \<Longrightarrow> sp_name sp = decl_name decl"
  by (auto simp add: storedProcedure_def Let_def split: if_splits option.splits sum.splits)

lemma storedProcedure_Inr_params:
  "storedProcedure upper checker decl = Inr sp \<Longrightarrow> checker decl = [sig] \<Longrightarrow>
     sp_params sp = map (\<lambda>p. \<lparr>param_name = toUpperCase upper (sym_name p),
                                param_type = mapToSQL (sym_type p)\<rparr>) (drop 1 (sig_params sig))"
  by (auto simp add: storedProcedure_def Let_def split: if_splits option.splits sum.splits)

text \<open>Whatever rollup does, \<^verbatim>\<open>call_rollup\<close> has written the entry script.\<close>

lemma call_rollup_world:
  "snd (call_rollup api tmpDir fileName sp w) =
     writeFile (tmpDir @ ''/use.js'') (use_js fileName sp) w"
  by (simp add: call_rollup_def Let_def split: promise.splits)

text \<open>An error of \<^verbatim>\<open>rollup.rollup\<close> leaves \<^verbatim>\<open>call_rollup\<close> as a rejection.\<close>

lemma call_rollup_rejects:
  "rollup api (writeFile (tmpDir @ ''/use.js'') (use_js fileName sp) w)
      (path_resolve api (tmpDir @ ''/use.js'')) = Rejected e
   \<Longrightarrow> fst (call_rollup api tmpDir fileName sp w) = Rejected e"
  by (simp add: call_rollup_def Let_def)

text \<open>When the bundler returns diagnostics, \<^verbatim>\<open>pack\<close> hands back the world as the bundler
  left it: nothing is removed.\<close>

lemma pack_diagnostics_world:
  assumes "mkdtemp ''temp-'' w = (tmpDir, w1)"
    and "bundler tmpDir fileName sp w1 = (Fulfilled (Inr d), w2)"
  shows "pack bundler fileName (sp # sprocs) w = (Fulfilled (Inr d), w2)"
  using assms by (simp add: pack_def)

text \<open>A throw of \<^verbatim>\<open>storedProcedures\<close> rejects the promise of \<^verbatim>\<open>compile\<close>.\<close>

lemma compile_rejects:
  assumes "sourceFile program = Some children"
    and "storedProcedures upper (typeChecker program) children = Inl e"
  shows "fst (compile upper bundler program fileName w) = Rejected e"
  using assms by (simp add: compile_def)

text \<open>Promises that all fulfil.\<close>

lemma first_rejection_fulfilled:
  "first_rejection (map (\<lambda>(t, r). (t, Fulfilled r)) outcomes) = None"
  by (induction outcomes) auto

lemma fulfilled_values_fulfilled:
  "fulfilled_values (map (\<lambda>(t, r). (t, Fulfilled r)) outcomes) = map snd outcomes"
  by (induction outcomes) auto

lemma Promise_all_fulfilled:
  "Promise_all (map (\<lambda>(t, r). (t, Fulfilled r)) outcomes) =
     (fold max (map fst (map (\<lambda>(t, r). (t, Fulfilled r)) outcomes)) 0,
      Fulfilled (map snd outcomes))"
  by (simp add: Promise_all_def first_rejection_fulfilled fulfilled_values_fulfilled)

lemma errors_eq: "map projr (filter isDiagnostics rs) = [d. Inr d \<leftarrow> rs]"
  by (induction rs) (auto simp add: isDiagnostics_def split: sum.splits)

lemma texts_eq:
  "concat (map (\<lambda>x. if isDiagnostics x then [] else projl x) rs) = concat [ss. Inl ss \<leftarrow> rs]"
  by (induction rs) (auto simp add: isDiagnostics_def split: sum.splits)

lemma stderr_eq:
  "concat (map (\<lambda>d. concat (map f (messages d))) ds) = concat (map f (concat (map messages ds)))"
  by (induction ds) auto

lemma nonempty_eq: "filter (\<lambda>s. 0 < length s) xs = filter (\<lambda>s. s \<noteq> []) xs"
  by (induction xs) auto

lemma main_fulfilled:
  assumes all: "Promise_all (map compile_file (drop 2 argv)) = (t, Fulfilled rs)"
  shows "((\<exists>r \<in> set rs. isDiagnostics r) \<longrightarrow>
            returned (main compile_file argv) = Fulfilled 1
          \<and> stderr (main compile_file argv) =
              concat (map (\<lambda>m. m @ [newline]) (concat (map messages [d. Inr d \<leftarrow> rs])))
          \<and> stdout (main compile_file argv) = [])
       \<and> (\<not> (\<exists>r \<in> set rs. isDiagnostics r) \<longrightarrow>
            returned (main compile_file argv) = Fulfilled 0
          \<and> stdout (main compile_file argv) =
              join [newline, newline, newline]
                   (filter (\<lambda>s. s \<noteq> []) (concat [ss. Inl ss \<leftarrow> rs]))
                @ [newline]
          \<and> stderr (main compile_file argv) = [])"
proof -
  have some:
    "(0 < length (map projr (filter isDiagnostics rs))) = (\<exists>r \<in> set rs. isDiagnostics r)"
    by (simp add: filter_empty_conv)
  show ?thesis
  proof (cases "\<exists>r \<in> set rs. isDiagnostics r")
    case True
    with some have "0 < length (map projr (filter isDiagnostics rs))" by simp
    then have "main compile_file argv =
        \<lparr>settled_at = t, returned = Fulfilled 1, stdout = [],
         stderr = concat (map (\<lambda>d. concat (map (\<lambda>m. m @ [newline]) (messages d)))
                              (map projr (filter isDiagnostics rs)))\<rparr>"
      by (simp add: main_def all Let_def)
    with True show ?thesis
      by (simp add: stderr_eq errors_eq)
  next
    case False
    with some have "\<not> 0 < length (map projr (filter isDiagnostics rs))" by simp
    then have "main compile_file argv =
        \<lparr>settled_at = t, returned = Fulfilled 0,
         stdout = join [newline, newline, newline]
                    (filter (\<lambda>s. 0 < length s)
                       (concat (map (\<lambda>x. if isDiagnostics x then [] else projl x) rs)))
                    @ [newline],
         stderr = []\<rparr>"
      by (simp add: main_def all Let_def)
    with False show ?thesis
      by (simp add: texts_eq nonempty_eq)
  qed
qed

text \<open>Among the promises that reject, \<^verbatim>\<open>Promise.all\<close> takes an earliest one.\<close>

lemma first_rejection_member:
  "first_rejection ps = Some (t, e) \<Longrightarrow> (t, Rejected e) \<in> set ps"
  by (induction ps arbitrary: t e rule: first_rejection.induct)
     (auto split: option.splits if_splits)

lemma first_rejection_earliest:
  "(t', Rejected e') \<in> set ps \<Longrightarrow>
     \<exists>t e. first_rejection ps = Some (t, e) \<and> (t, Rejected e) \<in> set ps \<and> t \<le> t'"
proof (induction ps rule: first_rejection.induct)
  case 1
  then show ?case by simp
next
  case (2 t v ps)
  then show ?case by auto
next
  case (3 t e ps)
  show ?case
  proof (cases "first_rejection ps")
    case None
    with 3 show ?thesis by auto
  next
    case (Some a)
    obtain t1 e1 where a: "a = (t1, e1)" by (cases a)
    show ?thesis
    proof (cases "(t', Rejected e') \<in> set ps")
      case True
      with 3 Some a show ?thesis by (auto split: if_splits)
    next
      case False
      with "3.prems" have eq: "t' = t" "e' = e" by auto
      have "(t1, Rejected e1) \<in> set ps"
        using Some a by (simp add: first_rejection_member)
      with Some a eq show ?thesis by auto
    qed
  qed
qed

section \<open>The entry script (C1)\<close>

text \<open>
  C1, as stated: the entry script calls the function with each declared parameter
  referenced by its source-level name. For the README's \<^verbatim>\<open>output_message\<close>, whose source
  parameters are \<^verbatim>\<open>snowflake\<close> and \<^verbatim>\<open>message\<close>, the script written is not the one calling
  \<^verbatim>\<open>output_message(snowflake, message)\<close>: the call names \<^verbatim>\<open>MESSAGE\<close>.
\<close>

theorem use_js_source_names_counterexample:
  "storedProcedure ascii_engine one_signature output_message_decl = Inr output_message_sp
   \<and> use_js ''output_message.ts'' output_message_sp \<noteq>
       ''import {output_message} from '' @ [quote] @ ''../output_message.js'' @ [quote]
         @ [newline] @ ''__result = output_message(snowflake, message)''
   \<and> use_js ''output_message.ts'' output_message_sp =
       ''import {output_message} from '' @ [quote] @ ''../output_message.js'' @ [quote]
         @ [newline] @ ''__result = output_message(snowflake, MESSAGE)''"
  by code_simp

text \<open>
  C1, amended: for the descriptor of a declaration with signature \<open>sig\<close>, the entry script
  written to \<^verbatim>\<open>use.js\<close> in the scratch directory imports the function from the emitted
  module and assigns to \<^verbatim>\<open>__result\<close> the call of the function, under its declared name,
  with \<^verbatim>\<open>snowflake\<close> first and then the parameters after the first in declaration order,
  each referenced by its upper-cased name, the name the descriptor holds. Upper-cased
  means: for an ASCII name, each of the letters a to z replaced by its capital and
  everything else kept; for any other name, what the engine's \<^verbatim>\<open>toUpperCase\<close> gives.
\<close>

theorem use_js_calls_with_uppercased_names:
  assumes "checker decl = [sig]" and "storedProcedure upper checker decl = Inr sp"
  shows "let uppercased =
               (\<lambda>n. if list_all (\<lambda>c. (of_char c :: nat) < 128) n
                 then map (\<lambda>c. if 97 \<le> (of_char c :: nat) \<and> (of_char c :: nat) \<le> 122
                                then char_of ((of_char c :: nat) - 32) else c) n
                 else upper n)
         in use_js fileName sp =
              ''import {'' @ decl_name decl @ ''} from '' @ [quote] @ ''../''
                @ take (length fileName - 3) fileName @ ''.js'' @ [quote] @ [newline]
                @ ''__result = '' @ decl_name decl @ ''(snowflake''
                @ concat (map (\<lambda>p. '', '' @ uppercased (sym_name p)) (drop 1 (sig_params sig)))
                @ '')''
            \<and> map_of (files (snd (call_rollup api tmpDir fileName sp w))) (tmpDir @ ''/use.js'')
                = Some (use_js fileName sp)"
proof -
  have n: "sp_name sp = decl_name decl"
    using assms(2) by (rule storedProcedure_Inr_name)
  have p: "sp_params sp = map (\<lambda>p. \<lparr>param_name = toUpperCase upper (sym_name p),
                                param_type = mapToSQL (sym_type p)\<rparr>) (drop 1 (sig_params sig))"
    using assms(2) assms(1) by (rule storedProcedure_Inr_params)
  have a: "use_js fileName sp =
           ''import {'' @ decl_name decl @ ''} from '' @ [quote] @ ''../''
             @ take (length fileName - 3) fileName @ ''.js'' @ [quote] @ [newline]
             @ ''__result = '' @ decl_name decl @ ''(snowflake''
             @ concat (map (\<lambda>p. '', '' @ toUpperCase upper (sym_name p)) (drop 1 (sig_params sig)))
             @ '')''"
    by (simp add: use_js_def Let_def n p comp_def)
  have b: "map_of (files (snd (call_rollup api tmpDir fileName sp w))) (tmpDir @ ''/use.js'')
           = Some (use_js fileName sp)"
    by (simp add: call_rollup_world writeFile_def)
  from a b
  have "use_js fileName sp =
           ''import {'' @ decl_name decl @ ''} from '' @ [quote] @ ''../''
             @ take (length fileName - 3) fileName @ ''.js'' @ [quote] @ [newline]
             @ ''__result = '' @ decl_name decl @ ''(snowflake''
             @ concat (map (\<lambda>p. '', '' @ toUpperCase upper (sym_name p)) (drop 1 (sig_params sig)))
             @ '')''
        \<and> map_of (files (snd (call_rollup api tmpDir fileName sp w))) (tmpDir @ ''/use.js'')
            = Some (use_js fileName sp)"
    by simp
  then show ?thesis
    unfolding Let_def toUpperCase_explicit .
qed

text \<open>
  Witness for C1: the \<^verbatim>\<open>ascii_2d_plot\<close> procedure, bundled in \<^verbatim>\<open>temp-0\<close>; the call names
  the four parameters after the connection, in order.
\<close>

theorem use_js_calls_with_uppercased_names_witness:
  "plot_signature ascii_2d_plot_decl = [ascii_2d_plot_sig]
   \<and> storedProcedure ascii_engine plot_signature ascii_2d_plot_decl = Inr ascii_2d_plot_sp
   \<and> use_js ''ascii_2d_plot.ts'' ascii_2d_plot_sp =
       ''import {ascii_2d_plot} from '' @ [quote] @ ''../ascii_2d_plot.js'' @ [quote]
         @ [newline]
         @ ''__result = ascii_2d_plot(snowflake, TABLE_NAME, X_COLUMN, Y_COLUMN, SETTINGS)''
   \<and> map_of (files (snd (call_rollup rollup_ok ''temp-0'' ''ascii_2d_plot.ts''
                            ascii_2d_plot_sp empty_world))) ''temp-0/use.js''
       = Some (use_js ''ascii_2d_plot.ts'' ascii_2d_plot_sp)"
proof -
  have h1: "plot_signature ascii_2d_plot_decl = [ascii_2d_plot_sig]"
    by (simp add: plot_signature_def)
  have h2: "storedProcedure ascii_engine plot_signature ascii_2d_plot_decl = Inr ascii_2d_plot_sp"
    by code_simp
  have e: "''import {'' @ decl_name ascii_2d_plot_decl @ ''} from '' @ [quote] @ ''../''
             @ take (length ''ascii_2d_plot.ts'' - 3) ''ascii_2d_plot.ts'' @ ''.js'' @ [quote]
             @ [newline] @ ''__result = '' @ decl_name ascii_2d_plot_decl @ ''(snowflake''
             @ concat (map (\<lambda>p. '', '' @ (\<lambda>n. if list_all (\<lambda>c. (of_char c :: nat) < 128) n
                 then map (\<lambda>c. if 97 \<le> (of_char c :: nat) \<and> (of_char c :: nat) \<le> 122
                                then char_of ((of_char c :: nat) - 32) else c) n
                 else ascii_engine n) (sym_name p))
                           (drop 1 (sig_params ascii_2d_plot_sig)))
             @ '')''
         = ''import {ascii_2d_plot} from '' @ [quote] @ ''../ascii_2d_plot.js'' @ [quote]
         @ [newline]
         @ ''__result = ascii_2d_plot(snowflake, TABLE_NAME, X_COLUMN, Y_COLUMN, SETTINGS)''"
    by code_simp
  from use_js_calls_with_uppercased_names [where checker = plot_signature
         and decl = ascii_2d_plot_decl and sig = ascii_2d_plot_sig and upper = ascii_engine
         and sp = ascii_2d_plot_sp and fileName = "''ascii_2d_plot.ts''" and api = rollup_ok
         and tmpDir = "''temp-0''" and w = empty_world, OF h1 h2]
  have "use_js ''ascii_2d_plot.ts'' ascii_2d_plot_sp =
          ''import {'' @ decl_name ascii_2d_plot_decl @ ''} from '' @ [quote] @ ''../''
             @ take (length ''ascii_2d_plot.ts'' - 3) ''ascii_2d_plot.ts'' @ ''.js'' @ [quote]
             @ [newline] @ ''__result = '' @ decl_name ascii_2d_plot_decl @ ''(snowflake''
             @ concat (map (\<lambda>p. '', '' @ (\<lambda>n. if list_all (\<lambda>c. (of_char c :: nat) < 128) n
                 then map (\<lambda>c. if 97 \<le> (of_char c :: nat) \<and> (of_char c :: nat) \<le> 122
                                then char_of ((of_char c :: nat) - 32) else c) n
                 else ascii_engine n) (sym_name p))
                           (drop 1 (sig_params ascii_2d_plot_sig)))
             @ '')''"
    and w: "map_of (files (snd (call_rollup rollup_ok (''temp-0'') ''ascii_2d_plot.ts''
                            ascii_2d_plot_sp empty_world))) (''temp-0'' @ ''/use.js'')
       = Some (use_js ''ascii_2d_plot.ts'' ascii_2d_plot_sp)"
    unfolding Let_def by blast+
  then have u: "use_js ''ascii_2d_plot.ts'' ascii_2d_plot_sp =
       ''import {ascii_2d_plot} from '' @ [quote] @ ''../ascii_2d_plot.js'' @ [quote]
         @ [newline]
         @ ''__result = ascii_2d_plot(snowflake, TABLE_NAME, X_COLUMN, Y_COLUMN, SETTINGS)''"
    by (simp only: e)
  from w have w': "map_of (files (snd (call_rollup rollup_ok ''temp-0'' ''ascii_2d_plot.ts''
                            ascii_2d_plot_sp empty_world))) ''temp-0/use.js''
       = Some (use_js ''ascii_2d_plot.ts'' ascii_2d_plot_sp)"
    by simp
  from h1 h2 u w' show ?thesis by blast
qed

section \<open>Errors inside the bundler (C2)\<close>

text \<open>
  C2: every error of dependency resolution or bundling inside \<^verbatim>\<open>call_rollup\<close> comes back as
  a Diagnostics value. The code catches what \<^verbatim>\<open>bundle.generate\<close> throws, but calls
  \<^verbatim>\<open>rollup.rollup\<close>, which resolves and links the module graph, before the \<^verbatim>\<open>try\<close>. When
  the marked function is not exported, \<^verbatim>\<open>rollup.rollup\<close> rejects and so does
  \<^verbatim>\<open>call_rollup\<close>; an error of \<^verbatim>\<open>generate\<close> on the same descriptor is returned as
  Diagnostics.
\<close>

theorem call_rollup_build_error_rejects:
  "fst (call_rollup rollup_build_fails ''temp-0'' ''output_message.ts'' output_message_sp
          empty_world)
     = Rejected (JsError ''RollupError'' ''output_message is not exported by output_message.js'')
   \<and> fst (call_rollup rollup_generate_fails ''temp-0'' ''output_message.ts'' output_message_sp
            empty_world)
     = Fulfilled (Inr \<lparr>messages = [''RollupError: Could not generate output'']\<rparr>)"
  by code_simp

section \<open>The scratch directory (C3)\<close>

text \<open>
  C3: the scratch directory is deleted after the bundling call on every exit path,
  including the one where the bundler returns diagnostics. \<^verbatim>\<open>pack\<close> returns the
  diagnostics before it reaches \<^verbatim>\<open>rm\<close>: starting from an empty file system, the directory
  \<^verbatim>\<open>temp-0\<close> is still there after a bundling that gave diagnostics, and is gone after one
  that gave a script.
\<close>

theorem pack_diagnostics_leaves_scratch_directory:
  "fst (pack (call_rollup rollup_generate_fails) ''output_message.ts'' [output_message_sp]
          empty_world)
     = Fulfilled (Inr \<lparr>messages = [''RollupError: Could not generate output'']\<rparr>)
   \<and> dirs (snd (pack (call_rollup rollup_generate_fails) ''output_message.ts''
                  [output_message_sp] empty_world)) = [''temp-0'']
   \<and> dirs (snd (pack (call_rollup rollup_ok) ''output_message.ts'' [output_message_sp]
                  empty_world)) = []"
  by code_simp

section \<open>A module that throws (C4)\<close>

text \<open>
  C4, as stated: when one module's pipeline throws, the batch still waits for the other
  modules and no exception reaches the orchestrator. In the batch of the overloaded module
  and the clean module, \<^verbatim>\<open>compile\<close> of the first rejects with the signature error, and
  \<^verbatim>\<open>main\<close> itself rejects with that error, at time 0, before the clean module has settled
  at time 5; it returns no exit code and writes nothing.
\<close>

theorem main_hard_error_counterexample:
  "example_pipelines ''overloaded.ts''
     = (0, Rejected (JsError ''Error'' ''Function output_message has 2 signatures ?!''))
   \<and> fst (example_pipelines ''output_message.ts'') = 5
   \<and> main example_pipelines [''ts-node'', ''main.ts'', ''overloaded.ts'', ''output_message.ts'']
     = \<lparr>settled_at = 0,
        returned = Rejected (JsError ''Error'' ''Function output_message has 2 signatures ?!''),
        stdout = [], stderr = []\<rparr>"
  by code_simp

text \<open>
  C4, amended: when the pipeline of some module rejects, \<^verbatim>\<open>main\<close> rejects too: with the
  error of a rejected module pipeline, at the time that pipeline settled, which is no later
  than any other rejection, whatever the remaining modules do; it returns no exit code and
  writes neither diagnostics nor statements.
\<close>

theorem main_rejects_with_earliest_rejection:
  assumes "(t', Rejected e') \<in> set (map compile_file (drop 2 argv))"
  shows "\<exists>t e. (t, Rejected e) \<in> set (map compile_file (drop 2 argv)) \<and> t \<le> t'
           \<and> main compile_file argv =
               \<lparr>settled_at = t, returned = Rejected e, stdout = [], stderr = []\<rparr>"
proof -
  from first_rejection_earliest [OF assms]
  obtain t e where f: "first_rejection (map compile_file (drop 2 argv)) = Some (t, e)"
    and m: "(t, Rejected e) \<in> set (map compile_file (drop 2 argv))" and le: "t \<le> t'"
    by blast
  from f have "main compile_file argv =
               \<lparr>settled_at = t, returned = Rejected e, stdout = [], stderr = []\<rparr>"
    by (simp add: main_def Promise_all_def Let_def)
  with m le show ?thesis by blast
qed

text \<open>Witness for C4: the batch of the overloaded and the clean module.\<close>

theorem main_rejects_with_earliest_rejection_witness:
  "(0, Rejected (JsError ''Error'' ''Function output_message has 2 signatures ?!''))
     \<in> set (map example_pipelines
               (drop 2 [''ts-node'', ''main.ts'', ''overloaded.ts'', ''output_message.ts'']))
   \<and> (\<exists>t e. (t, Rejected e) \<in> set (map example_pipelines
               (drop 2 [''ts-node'', ''main.ts'', ''overloaded.ts'', ''output_message.ts'']))
        \<and> t \<le> 0
        \<and> main example_pipelines
              [''ts-node'', ''main.ts'', ''overloaded.ts'', ''output_message.ts'']
            = \<lparr>settled_at = t, returned = Rejected e, stdout = [], stderr = []\<rparr>)"
proof -
  have o: "example_pipelines ''overloaded.ts''
     = (0, Rejected (JsError ''Error'' ''Function output_message has 2 signatures ?!''))"
    by code_simp
  have h: "(0, Rejected (JsError ''Error'' ''Function output_message has 2 signatures ?!''))
     \<in> set (map example_pipelines
               (drop 2 [''ts-node'', ''main.ts'', ''overloaded.ts'', ''output_message.ts'']))"
    by (simp add: o)
  from main_rejects_with_earliest_rejection [OF h] h show ?thesis
    by blast
qed

section \<open>The type mapper (C5)\<close>

text \<open>
  C5: for every string that is not a recognised key, \<^verbatim>\<open>mapToSQL\<close> returns the string
  \<^verbatim>\<open>VARIANT\<close>, never a non-string. The lookup \<^verbatim>\<open>map[dataType]\<close> also finds what the object
  literal inherits: for a parameter whose type is an interface named \<^verbatim>\<open>toString\<close>, the
  result is the native function of that name, which is truthy, so the fallback is not
  taken; rendered into the statement it reads \<^verbatim>\<open>function toString() { [native code] }\<close>.
\<close>

theorem mapToSQL_inherited_property:
  "mapToSQL ''toString'' = JFunction ''toString''
   \<and> mapToSQL ''toString'' \<noteq> JString ''VARIANT''
   \<and> toString (mapToSQL ''toString'') = ''function toString() { [native code] }''"
  by (simp add: mapToSQL_def js_or_def get_prop_def sql_types_def object_prototype_def)

section \<open>Signature extraction (C6)\<close>



section \<open>The SQL parameter list (C7)\<close>

text \<open>
  C7: for an eligible declaration with signature \<open>sig\<close>, the descriptor has one parameter
  fewer than the signature, and its parameter at position \<open>i\<close> is the signature's parameter
  at position \<open>i + 1\<close> with the name upper-cased, so that the first parameter is not among
  them. Upper-cased means: for an ASCII name, each of the letters a to z replaced by its
  capital and everything else kept, so that the name keeps its length and has none of
  the letters a to z; for any other name, what the engine's \<^verbatim>\<open>toUpperCase\<close> gives. The
  parameter list rendered by \<^verbatim>\<open>sqlSignature\<close> consists of exactly these upper-cased names,
  in order, each with its mapped type.
\<close>

theorem sqlSignature_parameters:
  assumes "isStoredProcedure (FunctionDecl decl) = Inr True" and "checker decl = [sig]"
  shows "let uppercased =
               (\<lambda>n. if list_all (\<lambda>c. (of_char c :: nat) < 128) n
                 then map (\<lambda>c. if 97 \<le> (of_char c :: nat) \<and> (of_char c :: nat) \<le> 122
                                then char_of ((of_char c :: nat) - 32) else c) n
                 else upper n)
         in \<exists>sp. storedProcedure upper checker decl = Inr sp
              \<and> length (sp_params sp) = length (sig_params sig) - 1
              \<and> (\<forall>i < length (sp_params sp).
                    param_name (sp_params sp ! i)
                      = uppercased (sym_name (sig_params sig ! Suc i)))
              \<and> (\<forall>i < length (sp_params sp).
                    list_all (\<lambda>c. (of_char c :: nat) < 128) (sym_name (sig_params sig ! Suc i))
                    \<longrightarrow> length (param_name (sp_params sp ! i))
                          = length (sym_name (sig_params sig ! Suc i))
                        \<and> (\<forall>c \<in> set (param_name (sp_params sp ! i)).
                              \<not> (97 \<le> (of_char c :: nat) \<and> (of_char c :: nat) \<le> 122)))
              \<and> sqlSignature sp =
                  decl_name decl @ ''(''
                    @ join '', '' (map (\<lambda>p. uppercased (sym_name p) @ '' ''
                                              @ toString (mapToSQL (sym_type p)))
                                       (drop 1 (sig_params sig)))
                    @ '') returns '' @ toString (sp_returnType sp)"
proof -
  from eligible_tag [OF assms(1)] obtain tag where t: "storedProcedureTag decl = Inr (Some tag)" ..
  let ?sp = "\<lparr>sp_name = decl_name decl,
                sp_params = map (\<lambda>p. \<lparr>param_name = toUpperCase upper (sym_name p),
                                        param_type = mapToSQL (sym_type p)\<rparr>)
                                (drop 1 (sig_params sig)),
                sp_returnType = (if sig_returnType sig \<noteq> ''void''
                                 then mapToSQL (sig_returnType sig)
                                 else JString ''VARIANT NULL''),
                sp_rights = runAs tag\<rparr>"
  have sp: "storedProcedure upper checker decl = Inr ?sp"
    using storedProcedure_one [where upper = upper and checker = checker and decl = decl and sig = sig and tag = tag] assms(2) t by simp
  have len: "length (sp_params ?sp) = length (sig_params sig) - 1"
    by simp
  have nth: "\<forall>i < length (sp_params ?sp).
             param_name (sp_params ?sp ! i) = toUpperCase upper (sym_name (sig_params sig ! Suc i))"
    by simp
  have up: "\<forall>i < length (sp_params ?sp).
              list_all (\<lambda>c. (of_char c :: nat) < 128) (sym_name (sig_params sig ! Suc i))
              \<longrightarrow> length (param_name (sp_params ?sp ! i))
                    = length (sym_name (sig_params sig ! Suc i))
                  \<and> (\<forall>c \<in> set (param_name (sp_params ?sp ! i)).
                        \<not> (97 \<le> (of_char c :: nat) \<and> (of_char c :: nat) \<le> 122))"
  proof (intro allI impI)
    fix i
    assume i: "i < length (sp_params ?sp)"
      and a: "list_all (\<lambda>c. (of_char c :: nat) < 128) (sym_name (sig_params sig ! Suc i))"
    from i have n: "param_name (sp_params ?sp ! i)
                      = toUpperCase upper (sym_name (sig_params sig ! Suc i))"
      by simp
    have l: "length (toUpperCase upper (sym_name (sig_params sig ! Suc i)))
               = length (sym_name (sig_params sig ! Suc i))"
      using a by (simp add: toUpperCase_ascii)
    have c: "\<forall>c \<in> set (toUpperCase upper (sym_name (sig_params sig ! Suc i))).
               \<not> (97 \<le> (of_char c :: nat) \<and> (of_char c :: nat) \<le> 122)"
      using a toUpperCase_not_lower by blast
    from l c show "length (param_name (sp_params ?sp ! i))
                    = length (sym_name (sig_params sig ! Suc i))
                  \<and> (\<forall>c \<in> set (param_name (sp_params ?sp ! i)).
                        \<not> (97 \<le> (of_char c :: nat) \<and> (of_char c :: nat) \<le> 122))"
      unfolding n by simp
  qed
  have sig: "sqlSignature ?sp =
           decl_name decl @ ''(''
             @ join '', '' (map (\<lambda>p. toUpperCase upper (sym_name p) @ '' ''
                                       @ toString (mapToSQL (sym_type p)))
                                (drop 1 (sig_params sig)))
             @ '') returns '' @ toString (sp_returnType ?sp)"
    by (simp add: sqlSignature_def Let_def comp_def)
  from sp len nth up sig
  have "\<exists>sp. storedProcedure upper checker decl = Inr sp
              \<and> length (sp_params sp) = length (sig_params sig) - 1
              \<and> (\<forall>i < length (sp_params sp).
                    param_name (sp_params sp ! i)
                      = toUpperCase upper (sym_name (sig_params sig ! Suc i)))
              \<and> (\<forall>i < length (sp_params sp).
                    list_all (\<lambda>c. (of_char c :: nat) < 128) (sym_name (sig_params sig ! Suc i))
                    \<longrightarrow> length (param_name (sp_params sp ! i))
                          = length (sym_name (sig_params sig ! Suc i))
                        \<and> (\<forall>c \<in> set (param_name (sp_params sp ! i)).
                              \<not> (97 \<le> (of_char c :: nat) \<and> (of_char c :: nat) \<le> 122)))
              \<and> sqlSignature sp =
                  decl_name decl @ ''(''
                    @ join '', '' (map (\<lambda>p. toUpperCase upper (sym_name p) @ '' ''
                                              @ toString (mapToSQL (sym_type p)))
                                       (drop 1 (sig_params sig)))
                    @ '') returns '' @ toString (sp_returnType sp)"
    by blast
  then show ?thesis
    unfolding Let_def toUpperCase_explicit .
qed

text \<open>
  Witness for C7: \<^verbatim>\<open>ascii_2d_plot\<close>, whose five source parameters \<^verbatim>\<open>snowflake\<close>,
  \<^verbatim>\<open>table_name\<close>, \<^verbatim>\<open>x_column\<close>, \<^verbatim>\<open>y_column\<close> and \<^verbatim>\<open>settings\<close> are rendered as the four
  parameters \<^verbatim>\<open>TABLE_NAME\<close>, \<^verbatim>\<open>X_COLUMN\<close>, \<^verbatim>\<open>Y_COLUMN\<close> and \<^verbatim>\<open>SETTINGS\<close>.
\<close>

theorem sqlSignature_parameters_witness:
  "isStoredProcedure (FunctionDecl ascii_2d_plot_decl) = Inr True
   \<and> plot_signature ascii_2d_plot_decl = [ascii_2d_plot_sig]
   \<and> storedProcedure ascii_engine plot_signature ascii_2d_plot_decl = Inr ascii_2d_plot_sp
   \<and> length (sp_params ascii_2d_plot_sp) = 4
   \<and> map param_name (sp_params ascii_2d_plot_sp)
       = [''TABLE_NAME'', ''X_COLUMN'', ''Y_COLUMN'', ''SETTINGS'']
   \<and> sqlSignature ascii_2d_plot_sp =
       ''ascii_2d_plot(TABLE_NAME STRING, X_COLUMN STRING, Y_COLUMN STRING, SETTINGS VARIANT) returns STRING''"
proof -
  have e: "isStoredProcedure (FunctionDecl ascii_2d_plot_decl) = Inr True"
    by (simp add: ascii_2d_plot_decl_def STORED_PROCEDURE_TAG_def)
  have s: "plot_signature ascii_2d_plot_decl = [ascii_2d_plot_sig]"
    by (simp add: plot_signature_def)
  from sqlSignature_parameters [where decl = ascii_2d_plot_decl and checker = plot_signature
         and sig = ascii_2d_plot_sig and upper = ascii_engine, OF e s]
  obtain sp where sp: "storedProcedure ascii_engine plot_signature ascii_2d_plot_decl = Inr sp"
    and len: "length (sp_params sp) = length (sig_params ascii_2d_plot_sig) - 1"
    and rendered: "sqlSignature sp =
                  decl_name ascii_2d_plot_decl @ ''(''
                    @ join '', '' (map (\<lambda>p. (\<lambda>n. if list_all (\<lambda>c. (of_char c :: nat) < 128) n
                          then map (\<lambda>c. if 97 \<le> (of_char c :: nat) \<and> (of_char c :: nat) \<le> 122
                                         then char_of ((of_char c :: nat) - 32) else c) n
                          else ascii_engine n) (sym_name p) @ '' ''
                                              @ toString (mapToSQL (sym_type p)))
                                       (drop 1 (sig_params ascii_2d_plot_sig)))
                    @ '') returns '' @ toString (sp_returnType sp)"
    unfolding Let_def by blast
  have known: "storedProcedure ascii_engine plot_signature ascii_2d_plot_decl = Inr ascii_2d_plot_sp"
    by code_simp
  with sp have eq: "sp = ascii_2d_plot_sp" by simp
  have l4: "length (sp_params ascii_2d_plot_sp) = 4"
    using len unfolding eq by (simp add: ascii_2d_plot_sig_def)
  have pn: "map param_name (sp_params ascii_2d_plot_sp)
              = [''TABLE_NAME'', ''X_COLUMN'', ''Y_COLUMN'', ''SETTINGS'']"
    by (simp add: ascii_2d_plot_sp_def)
  have "decl_name ascii_2d_plot_decl @ ''(''
                    @ join '', '' (map (\<lambda>p. (\<lambda>n. if list_all (\<lambda>c. (of_char c :: nat) < 128) n
                          then map (\<lambda>c. if 97 \<le> (of_char c :: nat) \<and> (of_char c :: nat) \<le> 122
                                         then char_of ((of_char c :: nat) - 32) else c) n
                          else ascii_engine n) (sym_name p) @ '' ''
                                              @ toString (mapToSQL (sym_type p)))
                                       (drop 1 (sig_params ascii_2d_plot_sig)))
                    @ '') returns '' @ toString (sp_returnType ascii_2d_plot_sp)
        = ''ascii_2d_plot(TABLE_NAME STRING, X_COLUMN STRING, Y_COLUMN STRING, SETTINGS VARIANT) returns STRING''"
    by code_simp
  with rendered have r: "sqlSignature ascii_2d_plot_sp =
       ''ascii_2d_plot(TABLE_NAME STRING, X_COLUMN STRING, Y_COLUMN STRING, SETTINGS VARIANT) returns STRING''"
    unfolding eq by (rule trans)
  show ?thesis
    by (rule conjI [OF e conjI [OF s conjI [OF known conjI [OF l4 conjI [OF pn r]]]]])
qed

section \<open>Batch aggregation (C8)\<close>

text \<open>
  C8, as stated: if any module's outcome is a Diagnostics value the run exits 1 and writes
  every diagnostic to standard error, and if no module produced diagnostics it exits 0 and
  prints the statements. In the batch of \<^verbatim>\<open>broken.ts\<close>, whose outcome is a Diagnostics
  value, and the overloaded module, which throws, \<^verbatim>\<open>main\<close> rejects: it returns no exit code
  and writes no diagnostic. In the batch of the clean module and the overloaded module no
  module produced diagnostics, and \<^verbatim>\<open>main\<close> rejects as well: no exit code 0, nothing
  printed.
\<close>

theorem main_aggregation_counterexample:
  "mixed_pipelines ''broken.ts''
     = (3, Fulfilled (Inr \<lparr>messages =
          [''broken.ts (5,12): Type number is not assignable to type string.'',
           ''Cannot find module lib'']\<rparr>))
   \<and> mixed_pipelines ''overloaded.ts''
     = (0, Rejected (JsError ''Error'' ''Function output_message has 2 signatures ?!''))
   \<and> main mixed_pipelines [''ts-node'', ''main.ts'', ''broken.ts'', ''overloaded.ts'']
     = \<lparr>settled_at = 0,
        returned = Rejected (JsError ''Error'' ''Function output_message has 2 signatures ?!''),
        stdout = [], stderr = []\<rparr>
   \<and> returned (main mixed_pipelines [''ts-node'', ''main.ts'', ''broken.ts'', ''overloaded.ts''])
     \<noteq> Fulfilled 1
   \<and> main example_pipelines [''ts-node'', ''main.ts'', ''output_message.ts'', ''overloaded.ts'']
     = \<lparr>settled_at = 0,
        returned = Rejected (JsError ''Error'' ''Function output_message has 2 signatures ?!''),
        stdout = [], stderr = []\<rparr>
   \<and> returned (main example_pipelines
                 [''ts-node'', ''main.ts'', ''output_message.ts'', ''overloaded.ts''])
     \<noteq> Fulfilled 0"
  by code_simp

text \<open>
  C8, amended: when every module pipeline has fulfilled (none has thrown), with outcomes
  in module order: if some outcome is a Diagnostics value, \<^verbatim>\<open>main\<close> returns 1, writes to
  standard error every message of every Diagnostics outcome, in module order and then
  message order, each followed by a line feed, and writes nothing to standard output; if
  no outcome is a Diagnostics value, it returns 0, writes nothing to standard error and
  prints the non-empty statements, in module order, joined by three line feeds.
\<close>

theorem main_aggregation:
  assumes "map compile_file (drop 2 argv) = map (\<lambda>(t, r). (t, Fulfilled r)) outcomes"
  shows "((\<exists>r \<in> set (map snd outcomes). isDiagnostics r) \<longrightarrow>
            returned (main compile_file argv) = Fulfilled 1
          \<and> stderr (main compile_file argv) =
              concat (map (\<lambda>m. m @ [newline])
                          (concat (map messages [d. Inr d \<leftarrow> map snd outcomes])))
          \<and> stdout (main compile_file argv) = [])
       \<and> (\<not> (\<exists>r \<in> set (map snd outcomes). isDiagnostics r) \<longrightarrow>
            returned (main compile_file argv) = Fulfilled 0
          \<and> stdout (main compile_file argv) =
              join [newline, newline, newline]
                   (filter (\<lambda>s. s \<noteq> []) (concat [ss. Inl ss \<leftarrow> map snd outcomes]))
                @ [newline]
          \<and> stderr (main compile_file argv) = [])"
proof -
  have "Promise_all (map compile_file (drop 2 argv)) =
          (fold max (map fst (map (\<lambda>(t, r). (t, Fulfilled r)) outcomes)) 0,
           Fulfilled (map snd outcomes))"
    unfolding assms by (rule Promise_all_fulfilled)
  then show ?thesis
    by (rule main_fulfilled)
qed

text \<open>
  Witness for C8: a batch of the module with a type error and a module with two statements
  and an empty one, and a batch of the second module alone.
\<close>

theorem main_aggregation_witness:
  "map broken_pipelines (drop 2 [''ts-node'', ''main.ts'', ''broken.ts'', ''clean.ts''])
     = map (\<lambda>(t, r). (t, Fulfilled r))
         [(3, Inr \<lparr>messages = [''broken.ts (5,12): Type number is not assignable to type string.'',
                               ''Cannot find module lib'']\<rparr>),
          (5, Inl [''create or replace procedure f() returns STRING'', [],
                   ''create or replace procedure g() returns STRING''])]
   \<and> returned (main broken_pipelines [''ts-node'', ''main.ts'', ''broken.ts'', ''clean.ts''])
       = Fulfilled 1
   \<and> stderr (main broken_pipelines [''ts-node'', ''main.ts'', ''broken.ts'', ''clean.ts''])
       = ''broken.ts (5,12): Type number is not assignable to type string.'' @ [newline]
           @ ''Cannot find module lib'' @ [newline]
   \<and> stdout (main broken_pipelines [''ts-node'', ''main.ts'', ''broken.ts'', ''clean.ts'']) = []
   \<and> map broken_pipelines (drop 2 [''ts-node'', ''main.ts'', ''clean.ts''])
     = map (\<lambda>(t, r). (t, Fulfilled r))
         [(5, Inl [''create or replace procedure f() returns STRING'', [],
                   ''create or replace procedure g() returns STRING''])]
   \<and> returned (main broken_pipelines [''ts-node'', ''main.ts'', ''clean.ts'']) = Fulfilled 0
   \<and> stdout (main broken_pipelines [''ts-node'', ''main.ts'', ''clean.ts''])
       = ''create or replace procedure f() returns STRING'' @ [newline, newline, newline]
           @ ''create or replace procedure g() returns STRING'' @ [newline]
   \<and> stderr (main broken_pipelines [''ts-node'', ''main.ts'', ''clean.ts'']) = []"
proof -
  let ?d = "Inr \<lparr>messages = [''broken.ts (5,12): Type number is not assignable to type string.'',
                               ''Cannot find module lib'']\<rparr> :: string list + Diagnostics"
  let ?s = "Inl [''create or replace procedure f() returns STRING'', [],
                   ''create or replace procedure g() returns STRING''] :: string list + Diagnostics"
  have h1: "map broken_pipelines (drop 2 [''ts-node'', ''main.ts'', ''broken.ts'', ''clean.ts''])
     = map (\<lambda>(t, r). (t, Fulfilled r)) [(3, ?d), (5, ?s)]"
    by code_simp
  have h2: "map broken_pipelines (drop 2 [''ts-node'', ''main.ts'', ''clean.ts''])
     = map (\<lambda>(t, r). (t, Fulfilled r)) [(5, ?s)]"
    by code_simp
  from main_aggregation [OF h1] main_aggregation [OF h2] h1 h2 show ?thesis
    by (simp add: isDiagnostics_def)
qed

section \<open>The rights clause (C9)\<close>

text \<open>
  C9: the statement has the clause \<^verbatim>\<open>execute as CALLER\<close> for the comment \<^verbatim>\<open>caller\<close>,
  \<^verbatim>\<open>execute as OWNER\<close> for \<^verbatim>\<open>owner\<close>, and no such clause for any other comment. The
  lookup \<^verbatim>\<open>map[comment]\<close> also finds what the object literal inherits: for the marker
  \<^verbatim>\<open>@sf_stored_procedure constructor\<close>, \<^verbatim>\<open>runAs\<close> yields the function \<^verbatim>\<open>Object\<close>, which is
  not \<^verbatim>\<open>NOT_SPECIFIED\<close>, and the clause rendered is \<^verbatim>\<open>execute as undefined\<close>.
\<close>

theorem sqlRights_inherited_property:
  "runAs constructor_tag = JFunction ''Object''
   \<and> sqlRights (runAs constructor_tag) = '' execute as undefined''
   \<and> sqlRights (runAs constructor_tag) \<noteq> []"
  by (simp add: constructor_tag_def runAs_def sqlRights_def js_or_def get_prop_def
        rights_keywords_def object_prototype_def Rights_def NOT_SPECIFIED_def)

section \<open>The procedure name (C10)\<close>

text \<open>
  C10: the descriptor's name is the declaration's identifier, unchanged, and the rendered
  statement begins with \<^verbatim>\<open>create or replace procedure\<close>, that identifier and the opening
  parenthesis of the parameter list.
\<close>

theorem spCode_procedure_name:
  assumes "storedProcedure upper checker decl = Inr sp"
  shows "sp_name sp = decl_name decl
       \<and> prefix (''create or replace procedure '' @ decl_name decl @ ''('') (spCode sp bundle)"
proof -
  have n: "sp_name sp = decl_name decl"
    using assms by (rule storedProcedure_Inr_name)
  have "prefix (''create or replace procedure '' @ sp_name sp @ ''('') (spCode sp bundle)"
    by (simp add: spCode_def sqlSignature_def Let_def)
  with n show ?thesis by simp
qed

text \<open>Witness for C10: a declaration named \<^verbatim>\<open>fetchCell\<close>, in mixed case.\<close>

theorem spCode_procedure_name_witness:
  "storedProcedure ascii_engine one_signature (output_message_decl\<lparr>decl_name := ''fetchCell''\<rparr>)
     = Inr (output_message_sp\<lparr>sp_name := ''fetchCell''\<rparr>)
   \<and> sp_name (output_message_sp\<lparr>sp_name := ''fetchCell''\<rparr>) = ''fetchCell''
   \<and> prefix ''create or replace procedure fetchCell(''
        (spCode (output_message_sp\<lparr>sp_name := ''fetchCell''\<rparr>) bundled_code)"
proof -
  have h: "storedProcedure ascii_engine one_signature (output_message_decl\<lparr>decl_name := ''fetchCell''\<rparr>)
     = Inr (output_message_sp\<lparr>sp_name := ''fetchCell''\<rparr>)"
    by code_simp
  from spCode_procedure_name [OF h, of bundled_code] h show ?thesis
    by simp
qed

end
